theory Spec2Isabelle
  imports Main "HOL-Library.Sublist"
begin

section \<open>Data model of \<open>mcp_tools.py\<close>\<close>

text \<open>
  The script assembles two configuration objects and drives one call chain through three
  external collaborators (the model class, the MCP tool collection, the code agent). The
  collaborators are not part of the script: what they answer is a parameter of the model
  (the record \<open>world\<close>), what the script asks of them is logged in a trace.
\<close>

text \<open>The keyword arguments of \<open>LiteLLMModel(...)\<close>.\<close>

record model_config =
  model_id :: string
  api_base :: string
  max_tokens :: int
  num_ctx :: int

text \<open>The keyword arguments of \<open>StdioServerParameters(...)\<close>; \<open>env\<close> is a Python dict.\<close>

record server_parameters =
  command :: string
  args :: "string list"
  env :: "string \<rightharpoonup> string"

text \<open>
  A tool advertised by the MCP server: its name and input schema, bound to the session that
  discovered it.
\<close>

datatype tool = McpTool string string

text \<open>The keyword arguments of \<open>CodeAgent(...)\<close>.\<close>

record agent =
  agent_tools :: "tool list"
  agent_model :: model_config
  add_base_tools :: bool

text \<open>
  Exceptions: the three errors of the taxonomy, an external cancellation
  (\<open>KeyboardInterrupt\<close>), and any other exception a constructor may raise.
\<close>

datatype exn = LaunchError | ProtocolError | RunError | KeyboardInterrupt | OtherError

datatype launch_outcome = Started | NotFound | PermissionDenied

datatype handshake_outcome = HsOk "(string \<times> string) list" | HsFailed | HsTimeout

text \<open>
  Everything the script does not decide: the process environment and command line, whether
  the executable starts and how the handshake ends, whether constructing the agent raises,
  and what \<open>agent.run\<close> does for a given agent and query: how it ends (a final answer, an
  error, or a cancellation arriving during the run) and the lines the framework writes to
  standard output while it runs.
\<close>

record world =
  environ :: "string \<rightharpoonup> string"
  argv :: "string list"
  launch :: launch_outcome
  handshake :: handshake_outcome
  agent_init :: "exn option"
  agent_run :: "agent \<Rightarrow> string \<Rightarrow> exn + string"
  run_output :: "agent \<Rightarrow> string \<Rightarrow> string list"

datatype proc_state = NotStarted | Running | Terminated

text \<open>
  The trace: lines printed to standard output, the calls the script makes to its
  collaborators (with their arguments), and what happens to the subprocess.
\<close>

datatype event =
    Print string
  | CallLiteLLMModel model_config
  | CallStdioServerParameters server_parameters
  | CallFromMcp server_parameters bool
  | ProcSpawn
  | CallCodeAgent "tool list" model_config bool
  | CallRun string
  | CallExit "exn option"
  | ProcTerminate

record state =
  trace :: "event list"
  proc :: proc_state
  live_tools :: "tool list"

definition init_state :: state where
  "init_state = \<lparr>trace = [], proc = NotStarted, live_tools = []\<rparr>"

definition log :: "event \<Rightarrow> state \<Rightarrow> state" where
  "log ev s = s\<lparr>trace := trace s @ [ev]\<rparr>"

text \<open>Python's \<open>print\<close>.\<close>

definition print :: "string \<Rightarrow> state \<Rightarrow> state" where
  "print line s = log (Print line) s"

fun stdout_of :: "event list \<Rightarrow> string list" where
  "stdout_of [] = []"
| "stdout_of (Print line # evs) = line # stdout_of evs"
| "stdout_of (_ # evs) = stdout_of evs"

fun count_open :: "event list \<Rightarrow> nat" where
  "count_open [] = 0"
| "count_open (CallFromMcp _ _ # evs) = Suc (count_open evs)"
| "count_open (_ # evs) = count_open evs"

fun count_run :: "event list \<Rightarrow> nat" where
  "count_run [] = 0"
| "count_run (CallRun _ # evs) = Suc (count_run evs)"
| "count_run (_ # evs) = count_run evs"

fun count_exit :: "event list \<Rightarrow> nat" where
  "count_exit [] = 0"
| "count_exit (CallExit _ # evs) = Suc (count_exit evs)"
| "count_exit (_ # evs) = count_exit evs"

text \<open>The arguments of every \<open>CodeAgent(...)\<close> call of a trace: tools, model, \<open>add_base_tools\<close>.\<close>

fun agent_calls :: "event list \<Rightarrow> (tool list \<times> model_config \<times> bool) list" where
  "agent_calls [] = []"
| "agent_calls (CallCodeAgent tools model base # evs) = (tools, model, base) # agent_calls evs"
| "agent_calls (_ # evs) = agent_calls evs"

text \<open>
  What follows the first \<open>__exit__\<close> call of a trace. The block of the script ends with
  \<open>return result\<close>, so \<open>__exit__\<close> is called as soon as \<open>agent.run\<close> has returned: these are the
  events after the agent run has completed.
\<close>

fun after_exit :: "event list \<Rightarrow> event list" where
  "after_exit [] = []"
| "after_exit (CallExit _ # evs) = evs"
| "after_exit (_ # evs) = after_exit evs"

text \<open>The trace without the printed lines: the calls and the process events, in order.\<close>

fun calls_of :: "event list \<Rightarrow> event list" where
  "calls_of [] = []"
| "calls_of (Print _ # evs) = calls_of evs"
| "calls_of (ev # evs) = ev # calls_of evs"

section \<open>The external tool session\<close>

text \<open>The tools of a session: one for each entry (name, schema) of the advertised catalog.\<close>

definition mcp_tools :: "(string \<times> string) list \<Rightarrow> tool list" where
  "mcp_tools catalog = map (\<lambda>(name, schema). McpTool name schema) catalog"

text \<open>
  Modelled from the spec: \<open>ToolCollection.from_mcp\<close> belongs to the agent framework, the
  script only calls it. Section 4.2, \<open>open\<close>: start the subprocess, perform the handshake,
  on success hold the live process and the discovered tools; \<open>LaunchError\<close> when the
  executable cannot be started, \<open>ProtocolError\<close> when the handshake fails or times out, the
  partially started process being terminated.
\<close>

definition from_mcp :: "world \<Rightarrow> server_parameters \<Rightarrow> bool \<Rightarrow> state \<Rightarrow> (exn + tool list) \<times> state" where
  "from_mcp w params trust_remote_code s =
    (let s1 = log (CallFromMcp params trust_remote_code) s in
     case launch w of
       NotFound \<Rightarrow> (Inl LaunchError, s1)
     | PermissionDenied \<Rightarrow> (Inl LaunchError, s1)
     | Started \<Rightarrow>
         (let s2 = (log ProcSpawn s1)\<lparr>proc := Running\<rparr> in
          case handshake w of
            HsOk catalog \<Rightarrow>
              (let tools = mcp_tools catalog in
               (Inr tools, s2\<lparr>live_tools := tools\<rparr>))
          | HsFailed \<Rightarrow> (Inl ProtocolError, (log ProcTerminate s2)\<lparr>proc := Terminated\<rparr>)
          | HsTimeout \<Rightarrow> (Inl ProtocolError, (log ProcTerminate s2)\<lparr>proc := Terminated\<rparr>)))"

text \<open>
  Modelled from the spec: the session's \<open>close\<close> is the framework's too. Section 4.2,
  \<open>close\<close>: terminate the subprocess and invalidate the tools of the session; on a session
  that is already closed, do nothing.
\<close>

definition session_close :: "state \<Rightarrow> state" where
  "session_close s =
    (if proc s = Running
     then (log ProcTerminate s)\<lparr>proc := Terminated, live_tools := []\<rparr>
     else s)"

text \<open>
  The context manager's \<open>__exit__\<close>: it closes the session and answers \<open>False\<close>, so an
  exception of the block is not swallowed.
\<close>

definition session_exit :: "exn option \<Rightarrow> state \<Rightarrow> (exn + bool) \<times> state" where
  "session_exit raised s = (Inr False, session_close (log (CallExit raised) s))"

section \<open>Python's \<open>with\<close> statement\<close>

text \<open>
  \<open>with enter as r: body\<close>, for a body that ends in \<open>return\<close>. When \<open>enter\<close> raises, the
  block is not entered and \<open>exit\<close> is not called. Otherwise \<open>exit\<close> is called once, with the
  exception of the body if it raised one; an exception of \<open>exit\<close> replaces it, a true answer
  of \<open>exit\<close> swallows it and the statement falls through (\<open>None\<close>).
\<close>

definition with_stmt ::
  "(state \<Rightarrow> (exn + 'r) \<times> state) \<Rightarrow> ('r \<Rightarrow> state \<Rightarrow> (exn + 'a) \<times> state) \<Rightarrow>
   (exn option \<Rightarrow> state \<Rightarrow> (exn + bool) \<times> state) \<Rightarrow> state \<Rightarrow> (exn + 'a option) \<times> state" where
  "with_stmt enter body exit s =
    (case enter s of
       (Inl e, s1) \<Rightarrow> (Inl e, s1)
     | (Inr r, s1) \<Rightarrow>
         (case body r s1 of
            (Inr v, s2) \<Rightarrow>
              (case exit None s2 of
                 (Inl e', s3) \<Rightarrow> (Inl e', s3)
               | (Inr _, s3) \<Rightarrow> (Inr (Some v), s3))
          | (Inl e, s2) \<Rightarrow>
              (case exit (Some e) s2 of
                 (Inl e', s3) \<Rightarrow> (Inl e', s3)
               | (Inr swallow, s3) \<Rightarrow> if swallow then (Inr None, s3) else (Inl e, s3))))"

section \<open>The script\<close>

definition initialize_model :: "state \<Rightarrow> model_config \<times> state" where
  "initialize_model s =
    (let model = \<lparr>model_id = ''ollama_chat/qwen2.5-coder:7b'',
                   api_base = ''http://127.0.0.1:11434'',
                   max_tokens = 2048,
                   num_ctx = 8192\<rparr>
     in (model, log (CallLiteLLMModel model) s))"

text \<open>
  The dict display \<open>{"UV_PYTHON": "3.13", **os.environ}\<close>: the literal entry first, then
  every entry of \<open>os.environ\<close> written over it.
\<close>

definition setup_mcp_server :: "(string \<rightharpoonup> string) \<Rightarrow> state \<Rightarrow> server_parameters \<times> state" where
  "setup_mcp_server os_environ s =
    (let server_parameters = \<lparr>command = ''uvx'',
                               args = [''--quiet'', ''pubmedmcp@0.1.3''],
                               env = [''UV_PYTHON'' \<mapsto> ''3.13''] ++ os_environ\<rparr>
     in (server_parameters, log (CallStdioServerParameters server_parameters) s))"

definition query :: string where
  "query = ''Please find a remedy for hangover.''"

text \<open>The lines the agent framework writes to standard output during \<open>agent.run\<close>.\<close>

definition run_prints :: "string list \<Rightarrow> state \<Rightarrow> state" where
  "run_prints lines s = s\<lparr>trace := trace s @ map Print lines\<rparr>"

text \<open>The body of the \<open>with\<close> block.\<close>

definition agent_block :: "world \<Rightarrow> model_config \<Rightarrow> tool list \<Rightarrow> state \<Rightarrow> (exn + string) \<times> state" where
  "agent_block w model tools s =
    (let s1 = log (CallCodeAgent tools model True) s in
     case agent_init w of
       Some e \<Rightarrow> (Inl e, s1)
     | None \<Rightarrow>
         (let a = \<lparr>agent_tools = tools, agent_model = model, add_base_tools = True\<rparr>;
              s2 = log (CallRun query) s1;
              s3 = run_prints (run_output w a query) s2
          in (agent_run w a query, s3)))"

definition run_agent_with_mcp_tools ::
  "world \<Rightarrow> model_config \<Rightarrow> server_parameters \<Rightarrow> state \<Rightarrow> (exn + string option) \<times> state" where
  "run_agent_with_mcp_tools w model server_parameters s =
    with_stmt (from_mcp w server_parameters True) (agent_block w model) session_exit s"

definition rule_line :: string where
  "rule_line = replicate 60 (CHR ''-'')"

definition main :: "world \<Rightarrow> state \<Rightarrow> (exn + unit) \<times> state" where
  "main w s =
    (let s1 = print ''Initializing LiteLLM model...'' s;
         (model, s2) = initialize_model s1;
         s3 = print ''Setting up MCP server parameters...'' s2;
         (server_parameters, s4) = setup_mcp_server (environ w) s3;
         s5 = print ''Connecting to MCP server and running agent...'' s4;
         s6 = print rule_line s5
     in case run_agent_with_mcp_tools w model server_parameters s6 of
          (Inl e, s7) \<Rightarrow> (Inl e, s7)
        | (Inr result, s7) \<Rightarrow>
            (let s8 = print rule_line s7;
                 s9 = print ''Agent completed successfully!'' s8
             in (Inr (), s9)))"

text \<open>
  The interpreter around \<open>main()\<close>: status 0 when \<open>main\<close> returns, 130 for an uncaught
  \<open>KeyboardInterrupt\<close>, 1 for any other uncaught exception.
\<close>

definition exit_status :: "exn + unit \<Rightarrow> int" where
  "exit_status r = (case r of Inr _ \<Rightarrow> 0 | Inl KeyboardInterrupt \<Rightarrow> 130 | Inl _ \<Rightarrow> 1)"

definition script :: "world \<Rightarrow> int \<times> state" where
  "script w = (case main w init_state of (r, s) \<Rightarrow> (exit_status r, s))"

text \<open>The two configuration objects and the agent that \<open>main\<close> builds.\<close>

definition the_model :: model_config where
  "the_model = fst (initialize_model init_state)"

definition the_parameters :: "world \<Rightarrow> server_parameters" where
  "the_parameters w = fst (setup_mcp_server (environ w) init_state)"

definition the_agent :: "model_config \<Rightarrow> (string \<times> string) list \<Rightarrow> agent" where
  "the_agent model catalog =
    \<lparr>agent_tools = mcp_tools catalog, agent_model = model, add_base_tools = True\<rparr>"

text \<open>
  The fatal error of a run, in the words of the error taxonomy: the first of launch error,
  protocol error, and an error raised while the agent is built or run.
\<close>

definition fatal_error :: "world \<Rightarrow> exn option" where
  "fatal_error w =
    (case launch w of
       NotFound \<Rightarrow> Some LaunchError
     | PermissionDenied \<Rightarrow> Some LaunchError
     | Started \<Rightarrow>
         (case handshake w of
            HsFailed \<Rightarrow> Some ProtocolError
          | HsTimeout \<Rightarrow> Some ProtocolError
          | HsOk catalog \<Rightarrow>
              (case agent_init w of
                 Some e \<Rightarrow> Some e
               | None \<Rightarrow>
                   (case agent_run w (the_agent the_model catalog) query of
                      Inl e \<Rightarrow> Some e
                    | Inr _ \<Rightarrow> None))))"

section \<open>Example runs\<close>

text \<open>
  A run that succeeds: one tool advertised, an answer returned, and written to standard
  output by the framework before \<open>agent.run\<close> returns.
\<close>

definition world_answer :: world where
  "world_answer =
    \<lparr>environ = [''HOME'' \<mapsto> ''/root''],
     argv = [],
     launch = Started,
     handshake = HsOk [(''search_pubmed'', ''query: string'')],
     agent_init = None,
     agent_run = (\<lambda>a q. Inr ''Drink water and rest.''),
     run_output = (\<lambda>a q. [''Final answer: Drink water and rest.''])\<rparr>"

text \<open>The executable is missing; the server hangs in the handshake; the run is interrupted.\<close>

definition world_no_uvx :: world where
  "world_no_uvx = world_answer\<lparr>launch := NotFound\<rparr>"

definition world_hang :: world where
  "world_hang = world_answer\<lparr>handshake := HsTimeout\<rparr>"

definition world_interrupt :: world where
  "world_interrupt =
    world_answer\<lparr>agent_run := (\<lambda>a q. Inl KeyboardInterrupt), run_output := (\<lambda>a q. [])\<rparr>"

section \<open>Traces of the script\<close>

text \<open>Reading a trace distributes over appending to it.\<close>

lemma stdout_of_append [simp]: "stdout_of (xs @ ys) = stdout_of xs @ stdout_of ys"
  by (induction xs rule: stdout_of.induct) simp_all

lemma count_open_append [simp]: "count_open (xs @ ys) = count_open xs + count_open ys"
  by (induction xs rule: count_open.induct) simp_all

lemma count_run_append [simp]: "count_run (xs @ ys) = count_run xs + count_run ys"
  by (induction xs rule: count_run.induct) simp_all

lemma count_exit_append [simp]: "count_exit (xs @ ys) = count_exit xs + count_exit ys"
  by (induction xs rule: count_exit.induct) simp_all

lemma calls_of_append [simp]: "calls_of (xs @ ys) = calls_of xs @ calls_of ys"
  by (induction xs rule: calls_of.induct) simp_all

lemma agent_calls_append [simp]: "agent_calls (xs @ ys) = agent_calls xs @ agent_calls ys"
  by (induction xs rule: agent_calls.induct) simp_all

text \<open>Printed lines are output and nothing else.\<close>

lemma stdout_of_prints [simp]: "stdout_of (map Print ls) = ls"
  by (induction ls) simp_all

lemma count_open_prints [simp]: "count_open (map Print ls) = 0"
  by (induction ls) simp_all

lemma count_run_prints [simp]: "count_run (map Print ls) = 0"
  by (induction ls) simp_all

lemma count_exit_prints [simp]: "count_exit (map Print ls) = 0"
  by (induction ls) simp_all

lemma calls_of_prints [simp]: "calls_of (map Print ls) = []"
  by (induction ls) simp_all

lemma agent_calls_prints [simp]: "agent_calls (map Print ls) = []"
  by (induction ls) simp_all

lemma after_exit_prints [simp]: "after_exit (map Print ls @ evs) = after_exit evs"
  by (induction ls) simp_all

text \<open>
  What \<open>run_agent_with_mcp_tools\<close> returns and logs, by the point at which the run ends: the
  launch, the handshake, the construction of the agent, the run itself, or normally.
\<close>

lemma from_mcp_ok:
  assumes "launch w = Started" "handshake w = HsOk catalog"
  shows "from_mcp w sp t s =
    (Inr (mcp_tools catalog),
     s\<lparr>trace := trace s @ [CallFromMcp sp t, ProcSpawn], proc := Running,
       live_tools := mcp_tools catalog\<rparr>)"
  using assms by (simp add: from_mcp_def log_def Let_def)

lemma run_agent_launch_fails:
  assumes "launch w \<noteq> Started"
  shows "run_agent_with_mcp_tools w m sp s = (Inl LaunchError, s\<lparr>trace := trace s @ [CallFromMcp sp True]\<rparr>)"
  using assms by (cases "launch w") (simp_all add: run_agent_with_mcp_tools_def with_stmt_def from_mcp_def log_def Let_def)

lemma run_agent_handshake_fails:
  assumes "launch w = Started" "handshake w = HsFailed \<or> handshake w = HsTimeout"
  shows "run_agent_with_mcp_tools w m sp s =
    (Inl ProtocolError, s\<lparr>trace := trace s @ [CallFromMcp sp True, ProcSpawn, ProcTerminate], proc := Terminated\<rparr>)"
  using assms by (auto simp add: run_agent_with_mcp_tools_def with_stmt_def from_mcp_def log_def Let_def)

lemma run_agent_init_fails:
  assumes "launch w = Started" "handshake w = HsOk catalog" "agent_init w = Some e"
  shows "run_agent_with_mcp_tools w m sp s =
    (Inl e, s\<lparr>trace := trace s @ [CallFromMcp sp True, ProcSpawn,
         CallCodeAgent (mcp_tools catalog) m True,
         CallExit (Some e), ProcTerminate], proc := Terminated, live_tools := []\<rparr>)"
  using assms by (simp add: run_agent_with_mcp_tools_def with_stmt_def from_mcp_ok agent_block_def
     session_exit_def session_close_def log_def Let_def)

lemma run_agent_run_fails:
  assumes "launch w = Started" "handshake w = HsOk catalog" "agent_init w = None"
    "agent_run w (the_agent m catalog) query = Inl e"
  shows "run_agent_with_mcp_tools w m sp s =
    (Inl e, s\<lparr>trace := trace s @ [CallFromMcp sp True, ProcSpawn,
         CallCodeAgent (mcp_tools catalog) m True, CallRun query]
         @ map Print (run_output w (the_agent m catalog) query)
         @ [CallExit (Some e), ProcTerminate], proc := Terminated, live_tools := []\<rparr>)"
  using assms by (simp add: run_agent_with_mcp_tools_def with_stmt_def from_mcp_ok agent_block_def
     session_exit_def session_close_def log_def run_prints_def Let_def the_agent_def)

lemma run_agent_ok:
  assumes "launch w = Started" "handshake w = HsOk catalog" "agent_init w = None"
    "agent_run w (the_agent m catalog) query = Inr answer"
  shows "run_agent_with_mcp_tools w m sp s =
    (Inr (Some answer), s\<lparr>trace := trace s @ [CallFromMcp sp True, ProcSpawn,
         CallCodeAgent (mcp_tools catalog) m True, CallRun query]
         @ map Print (run_output w (the_agent m catalog) query)
         @ [CallExit None, ProcTerminate], proc := Terminated, live_tools := []\<rparr>)"
  using assms by (simp add: run_agent_with_mcp_tools_def with_stmt_def from_mcp_ok agent_block_def
     session_exit_def session_close_def log_def run_prints_def Let_def the_agent_def)

text \<open>\<open>main\<close> around its call of \<open>run_agent_with_mcp_tools\<close>.\<close>

lemma main_unfold:
  "main w s =
    (case run_agent_with_mcp_tools w the_model (the_parameters w)
            (s\<lparr>trace := trace s @ [Print ''Initializing LiteLLM model...'', CallLiteLLMModel the_model,
                Print ''Setting up MCP server parameters...'', CallStdioServerParameters (the_parameters w),
                Print ''Connecting to MCP server and running agent...'', Print rule_line]\<rparr>) of
       (Inl e, s7) \<Rightarrow> (Inl e, s7)
     | (Inr result, s7) \<Rightarrow>
         (Inr (), s7\<lparr>trace := trace s7 @ [Print rule_line, Print ''Agent completed successfully!'']\<rparr>))"
  by (simp add: main_def print_def log_def Let_def initialize_model_def setup_mcp_server_def
      the_model_def the_parameters_def split: prod.splits sum.splits)

text \<open>The whole of \<open>main\<close>, by the point at which the run ends.\<close>

lemma trace_init_state: "trace init_state = []"
  by (simp add: init_state_def)

lemma main_launch_fails:
  assumes "launch w \<noteq> Started"
  shows "main w s = (Inl LaunchError, s\<lparr>trace := trace s @
       [Print ''Initializing LiteLLM model...'', CallLiteLLMModel the_model,
        Print ''Setting up MCP server parameters...'', CallStdioServerParameters (the_parameters w),
        Print ''Connecting to MCP server and running agent...'', Print rule_line,
        CallFromMcp (the_parameters w) True]\<rparr>)"
  by (simp add: main_unfold run_agent_launch_fails [OF assms])

lemma main_handshake_fails:
  assumes "launch w = Started" "handshake w = HsFailed \<or> handshake w = HsTimeout"
  shows "main w s = (Inl ProtocolError, s\<lparr>trace := trace s @
       [Print ''Initializing LiteLLM model...'', CallLiteLLMModel the_model,
        Print ''Setting up MCP server parameters...'', CallStdioServerParameters (the_parameters w),
        Print ''Connecting to MCP server and running agent...'', Print rule_line,
        CallFromMcp (the_parameters w) True, ProcSpawn, ProcTerminate], proc := Terminated\<rparr>)"
  by (simp add: main_unfold run_agent_handshake_fails [OF assms])

lemma main_init_fails:
  assumes "launch w = Started" "handshake w = HsOk catalog" "agent_init w = Some e"
  shows "main w s = (Inl e, s\<lparr>trace := trace s @
       [Print ''Initializing LiteLLM model...'', CallLiteLLMModel the_model,
        Print ''Setting up MCP server parameters...'', CallStdioServerParameters (the_parameters w),
        Print ''Connecting to MCP server and running agent...'', Print rule_line,
        CallFromMcp (the_parameters w) True, ProcSpawn,
        CallCodeAgent (mcp_tools catalog) the_model True,
        CallExit (Some e), ProcTerminate], proc := Terminated, live_tools := []\<rparr>)"
  by (simp add: main_unfold run_agent_init_fails [OF assms])

lemma main_run_fails:
  assumes "launch w = Started" "handshake w = HsOk catalog" "agent_init w = None"
    "agent_run w (the_agent the_model catalog) query = Inl e"
  shows "main w s = (Inl e, s\<lparr>trace := trace s @
       [Print ''Initializing LiteLLM model...'', CallLiteLLMModel the_model,
        Print ''Setting up MCP server parameters...'', CallStdioServerParameters (the_parameters w),
        Print ''Connecting to MCP server and running agent...'', Print rule_line,
        CallFromMcp (the_parameters w) True, ProcSpawn,
        CallCodeAgent (mcp_tools catalog) the_model True, CallRun query]
        @ map Print (run_output w (the_agent the_model catalog) query)
        @ [CallExit (Some e), ProcTerminate], proc := Terminated, live_tools := []\<rparr>)"
  by (simp add: main_unfold run_agent_run_fails [OF assms])

lemma main_trace_ok:
  assumes "launch w = Started" "handshake w = HsOk catalog" "agent_init w = None"
    "agent_run w (the_agent the_model catalog) query = Inr answer"
  shows "main w s = (Inr (), s\<lparr>trace := trace s @
       [Print ''Initializing LiteLLM model...'', CallLiteLLMModel the_model,
        Print ''Setting up MCP server parameters...'', CallStdioServerParameters (the_parameters w),
        Print ''Connecting to MCP server and running agent...'', Print rule_line,
        CallFromMcp (the_parameters w) True, ProcSpawn,
        CallCodeAgent (mcp_tools catalog) the_model True, CallRun query]
        @ map Print (run_output w (the_agent the_model catalog) query)
        @ [CallExit None, ProcTerminate,
           Print rule_line, Print ''Agent completed successfully!''],
       proc := Terminated, live_tools := []\<rparr>)"
  by (simp add: main_unfold run_agent_ok [OF assms])

text \<open>The five ways a run can end.\<close>

lemma world_cases:
  obtains (launch) "launch w \<noteq> Started"
  | (handshake) "launch w = Started" "handshake w = HsFailed \<or> handshake w = HsTimeout"
  | (init) catalog e where "launch w = Started" "handshake w = HsOk catalog" "agent_init w = Some e"
  | (run) catalog e where "launch w = Started" "handshake w = HsOk catalog" "agent_init w = None"
      "agent_run w (the_agent the_model catalog) query = Inl e"
  | (ok) catalog answer where "launch w = Started" "handshake w = HsOk catalog" "agent_init w = None"
      "agent_run w (the_agent the_model catalog) query = Inr answer"
proof (cases "launch w = Started")
  case False then show ?thesis by (rule launch)
next
  case l: True
  show ?thesis
  proof (cases "handshake w")
    case (HsOk catalog)
    show ?thesis
    proof (cases "agent_init w")
      case (Some e) with l HsOk show ?thesis by (rule init)
    next
      case None
      show ?thesis
      proof (cases "agent_run w (the_agent the_model catalog) query")
        case (Inl e) with l HsOk None show ?thesis by (rule run)
      next
        case (Inr a) with l HsOk None show ?thesis by (rule ok)
      qed
    qed
  next
    case HsFailed with l show ?thesis by (auto intro: handshake)
  next
    case HsTimeout with l show ?thesis by (auto intro: handshake)
  qed
qed

lemma exit_status_Inl: "exit_status (Inl e) \<noteq> 0"
  by (cases e) (simp_all add: exit_status_def)

text \<open>The command line is not read.\<close>

lemma from_mcp_ignores_argv: "from_mcp (w\<lparr>argv := a\<rparr>) sp t = from_mcp w sp t"
  by (rule ext) (simp add: from_mcp_def Let_def split: launch_outcome.splits handshake_outcome.splits)

lemma agent_block_ignores_argv: "agent_block (w\<lparr>argv := a\<rparr>) m = agent_block w m"
  by (intro ext) (simp add: agent_block_def Let_def split: option.splits)

lemma main_ignores_argv: "main (w\<lparr>argv := a\<rparr>) s = main w s"
  by (simp add: main_def run_agent_with_mcp_tools_def from_mcp_ignores_argv agent_block_ignores_argv)

text \<open>A text with a letter in it is no part of the rule of dashes.\<close>

lemma not_sublist_rule_line: "CHR ''D'' \<in> set xs \<Longrightarrow> \<not> sublist xs rule_line"
  by (auto simp: rule_line_def dest!: set_mono_sublist)

text \<open>
  Once the session is open, the block logs one \<open>__exit__\<close>, last but for the termination of the
  subprocess, with the exception of the body if there is one.
\<close>

lemma block_exit:
  assumes "launch w = Started" and "handshake w = HsOk catalog"
  shows "trace (snd (run_agent_with_mcp_tools w m sp s)) =
           trace s @ [CallFromMcp sp True, ProcSpawn, CallCodeAgent (mcp_tools catalog) m True]
             @ (if agent_init w = None
                then CallRun query # map Print (run_output w (the_agent m catalog) query)
                else [])
             @ [CallExit (case agent_init w of
                            Some e \<Rightarrow> Some e
                          | None \<Rightarrow> (case agent_run w (the_agent m catalog) query of
                                       Inl e \<Rightarrow> Some e | Inr _ \<Rightarrow> None)),
                ProcTerminate] \<and>
         count_exit (trace (snd (run_agent_with_mcp_tools w m sp s))) = count_exit (trace s) + 1 \<and>
         proc (snd (run_agent_with_mcp_tools w m sp s)) = Terminated \<and>
         live_tools (snd (run_agent_with_mcp_tools w m sp s)) = [] \<and>
         fst (run_agent_with_mcp_tools w m sp s) =
           (case agent_init w of
              Some e \<Rightarrow> Inl e
            | None \<Rightarrow> map_sum id Some (agent_run w (the_agent m catalog) query))"
proof (cases "agent_init w")
  case (Some e)
  show ?thesis
    by (simp add: run_agent_init_fails [OF assms Some] Some count_exit_append)
next
  case None
  show ?thesis
  proof (cases "agent_run w (the_agent m catalog) query")
    case (Inl e)
    show ?thesis
      by (simp add: run_agent_run_fails [OF assms None Inl] None Inl count_exit_append)
  next
    case (Inr a)
    show ?thesis
      by (simp add: run_agent_ok [OF assms None Inr] None Inr count_exit_append)
  qed
qed

text \<open>Whatever the world, the subprocess is not running when the script has ended.\<close>

lemma proc_after_script: "proc (snd (script w)) \<noteq> Running"
proof (cases w rule: world_cases)
  case launch
  then show ?thesis by (simp add: script_def main_launch_fails init_state_def)
next
  case handshake
  then show ?thesis by (simp add: script_def main_handshake_fails)
next
  case (init catalog e)
  then show ?thesis by (simp add: script_def main_init_fails)
next
  case (run catalog e)
  then show ?thesis by (simp add: script_def main_run_fails)
next
  case (ok catalog answer)
  then show ?thesis by (simp add: script_def main_trace_ok)
qed

section \<open>The model config builder\<close>

text \<open>
  Claim C6. \<open>initialize_model\<close> takes no input and builds its result from literals: any two
  calls, from any two states, return the same configuration; it has no error result; it
  prints nothing and leaves the subprocess as it is; and the configuration's \<open>max_tokens\<close>
  (2048) and \<open>num_ctx\<close> (8192) are positive.
\<close>

theorem initialize_model_pure:
  "fst (initialize_model s) = fst (initialize_model s') \<and>
   stdout_of (trace (snd (initialize_model s))) = stdout_of (trace s) \<and>
   proc (snd (initialize_model s)) = proc s \<and>
   live_tools (snd (initialize_model s)) = live_tools s \<and>
   0 < max_tokens (fst (initialize_model s)) \<and>
   0 < num_ctx (fst (initialize_model s))"
  by (simp add: initialize_model_def Let_def log_def stdout_of_append)

section \<open>The environment of the tool-provider process\<close>

text \<open>
  Claim C2. Override keys take precedence over the inherited environment: whatever the parent
  environment, the environment built by \<open>setup_mcp_server\<close> binds \<open>UV_PYTHON\<close> to \<open>3.13\<close>. The
  code means to (its comment: ``Specify Python version and inherit environment''; the
  script requires Python 3.13) and does not: in the dict display the inherited environment
  is unpacked after the literal entry and overwrites it. With \<open>UV_PYTHON=3.11\<close> in the parent,
  the tool-provider process is given \<open>3.11\<close>.
\<close>

theorem uv_python_inherited_value_wins:
  "env (fst (setup_mcp_server [''UV_PYTHON'' \<mapsto> ''3.11''] init_state)) ''UV_PYTHON'' = Some ''3.11'' \<and>
   env (fst (setup_mcp_server [''UV_PYTHON'' \<mapsto> ''3.11''] init_state)) ''UV_PYTHON'' \<noteq> Some ''3.13''"
  by (simp add: setup_mcp_server_def Let_def)

text \<open>
  Claim C10. Every variable of the parent environment is forwarded: for each key of
  \<open>os.environ\<close>, the environment of the launch descriptor binds it to the parent's value.
\<close>

theorem environ_forwarded:
  "k \<in> dom os_environ \<Longrightarrow> env (fst (setup_mcp_server os_environ s)) k = os_environ k"
  by (auto simp: setup_mcp_server_def Let_def map_add_def split: option.splits)

theorem environ_forwarded_witness:
  "''HOME'' \<in> dom [''HOME'' \<mapsto> ''/root'', ''UV_PYTHON'' \<mapsto> ''3.11''] \<and>
   env (fst (setup_mcp_server [''HOME'' \<mapsto> ''/root'', ''UV_PYTHON'' \<mapsto> ''3.11''] init_state)) ''HOME''
     = Some ''/root''"
  using environ_forwarded [of "''HOME''" "[''HOME'' \<mapsto> ''/root'', ''UV_PYTHON'' \<mapsto> ''3.11'']" init_state]
  by simp

section \<open>The scope of the tool session\<close>

text \<open>
  Claim C1. Once the session is open, every way out of the \<open>with\<close> block goes through the
  session's \<open>__exit__\<close>: whether the body returns an answer, the construction of the agent
  or the run raises an error, or a cancellation (\<open>KeyboardInterrupt\<close>) arrives, the trace of
  \<open>run_agent_with_mcp_tools\<close> ends with exactly one \<open>__exit__\<close> call and the termination of the
  subprocess, both before the function hands the error (or the answer) to its caller. And in
  every run of the script, whatever happens, the subprocess is not running at the end.
\<close>

theorem session_closed_on_every_exit:
  assumes "launch w = Started" and "handshake w = HsOk catalog"
  shows "trace (snd (run_agent_with_mcp_tools w m sp s)) =
           trace s @ [CallFromMcp sp True, ProcSpawn, CallCodeAgent (mcp_tools catalog) m True]
             @ (if agent_init w = None
                then CallRun query # map Print (run_output w (the_agent m catalog) query)
                else [])
             @ [CallExit (case agent_init w of
                            Some e \<Rightarrow> Some e
                          | None \<Rightarrow> (case agent_run w (the_agent m catalog) query of
                                       Inl e \<Rightarrow> Some e | Inr _ \<Rightarrow> None)),
                ProcTerminate] \<and>
         count_exit (trace (snd (run_agent_with_mcp_tools w m sp s))) = count_exit (trace s) + 1 \<and>
         proc (snd (run_agent_with_mcp_tools w m sp s)) = Terminated \<and>
         live_tools (snd (run_agent_with_mcp_tools w m sp s)) = [] \<and>
         fst (run_agent_with_mcp_tools w m sp s) =
           (case agent_init w of
              Some e \<Rightarrow> Inl e
            | None \<Rightarrow> map_sum id Some (agent_run w (the_agent m catalog) query)) \<and>
         proc (snd (script w')) \<noteq> Running"
  using block_exit [OF assms, of m sp s] proc_after_script [of w'] by blast

theorem session_closed_on_every_exit_witness:
  "launch world_interrupt = Started \<and>
   handshake world_interrupt = HsOk [(''search_pubmed'', ''query: string'')] \<and>
   trace (snd (run_agent_with_mcp_tools world_interrupt the_model (the_parameters world_interrupt) init_state)) =
     [CallFromMcp (the_parameters world_interrupt) True, ProcSpawn,
      CallCodeAgent (mcp_tools [(''search_pubmed'', ''query: string'')]) the_model True,
      CallRun query, CallExit (Some KeyboardInterrupt), ProcTerminate] \<and>
   proc (snd (run_agent_with_mcp_tools world_interrupt the_model (the_parameters world_interrupt) init_state)) = Terminated \<and>
   fst (run_agent_with_mcp_tools world_interrupt the_model (the_parameters world_interrupt) init_state) = Inl KeyboardInterrupt"
proof -
  have l: "launch world_interrupt = Started"
    by (simp add: world_interrupt_def world_answer_def)
  have h: "handshake world_interrupt = HsOk [(''search_pubmed'', ''query: string'')]"
    by (simp add: world_interrupt_def world_answer_def)
  have i: "agent_init world_interrupt = None"
    by (simp add: world_interrupt_def world_answer_def)
  have r: "agent_run world_interrupt = (\<lambda>a q. Inl KeyboardInterrupt)"
    by (simp add: world_interrupt_def world_answer_def)
  have o: "run_output world_interrupt = (\<lambda>a q. [])"
    by (simp add: world_interrupt_def world_answer_def)
  from session_closed_on_every_exit [OF l h, of the_model "the_parameters world_interrupt" init_state]
  show ?thesis by (simp add: l h i r o trace_init_state)
qed

section \<open>What the script prints\<close>

text \<open>
  Claim C3, as stated: on a successful run, after the agent run has completed, the agent's
  final answer is printed to standard output. It is not: \<open>main\<close> binds the answer to a variable
  and never reads it. In the run below the agent answers ``Drink water and rest.'' and the
  framework writes that answer to standard output while \<open>agent.run\<close> is running; once the run has
  completed the script prints a rule and ``Agent completed successfully!'', and neither
  line contains the answer.
\<close>

theorem result_not_printed_after_run:
  "fst (script world_answer) = 0 \<and>
   agent_run world_answer (the_agent the_model [(''search_pubmed'', ''query: string'')]) query
     = Inr ''Drink water and rest.'' \<and>
   stdout_of (trace (snd (script world_answer))) =
     [''Initializing LiteLLM model...'', ''Setting up MCP server parameters...'',
      ''Connecting to MCP server and running agent...'', rule_line,
      ''Final answer: Drink water and rest.'',
      rule_line, ''Agent completed successfully!''] \<and>
   stdout_of (after_exit (trace (snd (script world_answer)))) =
     [rule_line, ''Agent completed successfully!''] \<and>
   \<not> list_ex (sublist ''Drink water and rest.'')
       (stdout_of (after_exit (trace (snd (script world_answer)))))"
proof -
  have m: "main world_answer init_state = (Inr (), init_state\<lparr>trace := trace init_state @
       [Print ''Initializing LiteLLM model...'', CallLiteLLMModel the_model,
        Print ''Setting up MCP server parameters...'', CallStdioServerParameters (the_parameters world_answer),
        Print ''Connecting to MCP server and running agent...'', Print rule_line,
        CallFromMcp (the_parameters world_answer) True, ProcSpawn,
        CallCodeAgent (mcp_tools [(''search_pubmed'', ''query: string'')]) the_model True, CallRun query]
        @ map Print (run_output world_answer (the_agent the_model [(''search_pubmed'', ''query: string'')]) query)
        @ [CallExit None, ProcTerminate,
           Print rule_line, Print ''Agent completed successfully!''],
       proc := Terminated, live_tools := []\<rparr>)"
    by (rule main_trace_ok) (simp_all add: world_answer_def)
  have o: "run_output world_answer (the_agent the_model [(''search_pubmed'', ''query: string'')]) query
     = [''Final answer: Drink water and rest.'']" by (simp add: world_answer_def)
  have d: "\<not> sublist ''Drink water and rest.'' rule_line"
    by (rule not_sublist_rule_line) simp
  have st: "fst (script world_answer) = 0 \<and>
     stdout_of (trace (snd (script world_answer))) =
       [''Initializing LiteLLM model...'', ''Setting up MCP server parameters...'',
        ''Connecting to MCP server and running agent...'', rule_line,
        ''Final answer: Drink water and rest.'',
        rule_line, ''Agent completed successfully!''] \<and>
     stdout_of (after_exit (trace (snd (script world_answer)))) =
       [rule_line, ''Agent completed successfully!'']"
    by (simp add: script_def m o exit_status_def trace_init_state)
  have ag: "agent_run world_answer (the_agent the_model [(''search_pubmed'', ''query: string'')]) query
     = Inr ''Drink water and rest.''" by (simp add: world_answer_def)
  show ?thesis
    by (simp add: st ag d sublist_Cons_right prefix_Cons)
qed

text \<open>
  Claim C3, amended: on every successful run the standard output is three progress lines
  and a rule of sixty dashes, then whatever the agent framework writes while \<open>agent.run\<close> is
  running, then a second rule and ``Agent completed successfully!''; the script ends with
  status 0. After the agent run has completed the script prints those last two lines and
  nothing else, whatever the answer is: the script itself never prints the answer.
\<close>

theorem stdout_of_successful_run:
  assumes "launch w = Started" and "handshake w = HsOk catalog" and "agent_init w = None"
    and "agent_run w (the_agent the_model catalog) query = Inr answer"
  shows "fst (script w) = 0 \<and>
     stdout_of (trace (snd (script w))) =
       [''Initializing LiteLLM model...'', ''Setting up MCP server parameters...'',
        ''Connecting to MCP server and running agent...'', rule_line]
       @ run_output w (the_agent the_model catalog) query
       @ [rule_line, ''Agent completed successfully!''] \<and>
     stdout_of (after_exit (trace (snd (script w)))) =
       [rule_line, ''Agent completed successfully!''] \<and>
     trace (snd (script w)) =
       [Print ''Initializing LiteLLM model...'', CallLiteLLMModel the_model,
        Print ''Setting up MCP server parameters...'', CallStdioServerParameters (the_parameters w),
        Print ''Connecting to MCP server and running agent...'', Print rule_line,
        CallFromMcp (the_parameters w) True, ProcSpawn,
        CallCodeAgent (mcp_tools catalog) the_model True, CallRun query]
       @ map Print (run_output w (the_agent the_model catalog) query)
       @ [CallExit None, ProcTerminate,
          Print rule_line, Print ''Agent completed successfully!'']"
  by (simp add: script_def main_trace_ok [OF assms] exit_status_def trace_init_state)

theorem stdout_of_successful_run_witness:
  "launch world_answer = Started \<and>
   handshake world_answer = HsOk [(''search_pubmed'', ''query: string'')] \<and>
   agent_init world_answer = None \<and>
   agent_run world_answer (the_agent the_model [(''search_pubmed'', ''query: string'')]) query
     = Inr ''Drink water and rest.'' \<and>
   fst (script world_answer) = 0 \<and>
   stdout_of (trace (snd (script world_answer))) =
     [''Initializing LiteLLM model...'', ''Setting up MCP server parameters...'',
      ''Connecting to MCP server and running agent...'', rule_line,
      ''Final answer: Drink water and rest.'',
      rule_line, ''Agent completed successfully!''] \<and>
   stdout_of (after_exit (trace (snd (script world_answer)))) =
     [rule_line, ''Agent completed successfully!'']"
proof -
  have l: "launch world_answer = Started" by (simp add: world_answer_def)
  have h: "handshake world_answer = HsOk [(''search_pubmed'', ''query: string'')]"
    by (simp add: world_answer_def)
  have i: "agent_init world_answer = None" by (simp add: world_answer_def)
  have r: "agent_run world_answer (the_agent the_model [(''search_pubmed'', ''query: string'')]) query
     = Inr ''Drink water and rest.''" by (simp add: world_answer_def)
  have o: "run_output world_answer (the_agent the_model [(''search_pubmed'', ''query: string'')]) query
     = [''Final answer: Drink water and rest.'']" by (simp add: world_answer_def)
  from stdout_of_successful_run [OF l h i r] show ?thesis by (simp add: l h i r o)
qed

section \<open>Errors\<close>

text \<open>
  Claim C4. Nothing is caught and nothing is retried: \<open>main\<close> ends with exactly the fatal
  error of the run (launch error, protocol error, or the error raised while the agent is
  built or run) when there is one, and returns normally otherwise; the exit status of the
  script is 0 exactly when there is no fatal error; and in every run the session is opened
  at most once and the agent is run at most once.
\<close>

theorem errors_propagate_no_retry:
  "fst (main w init_state) = (case fatal_error w of None \<Rightarrow> Inr () | Some e \<Rightarrow> Inl e) \<and>
   (fst (script w) = 0) = (fatal_error w = None) \<and>
   count_open (trace (snd (script w))) \<le> 1 \<and>
   count_run (trace (snd (script w))) \<le> 1"
proof (cases w rule: world_cases)
  case launch
  then have "fatal_error w = Some LaunchError"
    by (cases "launch w") (simp_all add: fatal_error_def)
  then show ?thesis
    by (simp add: script_def main_launch_fails [OF launch] trace_init_state exit_status_def)
next
  case handshake
  then have "fatal_error w = Some ProtocolError"
    by (auto simp: fatal_error_def)
  then show ?thesis
    by (simp add: script_def main_handshake_fails [OF handshake] trace_init_state exit_status_def)
next
  case (init catalog e)
  then have "fatal_error w = Some e"
    by (simp add: fatal_error_def)
  then show ?thesis
    by (simp add: script_def main_init_fails [OF init] trace_init_state exit_status_Inl)
next
  case (run catalog e)
  then have "fatal_error w = Some e"
    by (simp add: fatal_error_def)
  then show ?thesis
    by (simp add: script_def main_run_fails [OF run] trace_init_state exit_status_Inl)
next
  case (ok catalog answer)
  then have "fatal_error w = None"
    by (simp add: fatal_error_def)
  then show ?thesis
    by (simp add: script_def main_trace_ok [OF ok] trace_init_state exit_status_def)
qed

theorem errors_propagate_no_retry_witness:
  "fst (main world_hang init_state) = Inl ProtocolError \<and> fst (script world_hang) \<noteq> 0 \<and>
   fst (main world_answer init_state) = Inr () \<and> fst (script world_answer) = 0"
proof -
  have 1: "fatal_error world_hang = Some ProtocolError"
    by (simp add: fatal_error_def world_hang_def world_answer_def)
  have 2: "fatal_error world_answer = None"
    by (simp add: fatal_error_def world_answer_def)
  from errors_propagate_no_retry [of world_hang] errors_propagate_no_retry [of world_answer] show ?thesis
    by (simp add: 1 2)
qed

section \<open>The sequence of steps\<close>

text \<open>
  Claim C5, as stated: every execution goes through the whole sequence and runs the agent
  exactly once. Not every execution does: when the executable cannot be started, opening the
  session raises, the script ends with status 1, and the agent is never run.
\<close>

theorem run_skipped_when_launch_fails:
  "fst (script world_no_uvx) = 1 \<and> count_run (trace (snd (script world_no_uvx))) = 0"
proof -
  have l: "launch world_no_uvx \<noteq> Started"
    by (simp add: world_no_uvx_def world_answer_def)
  show ?thesis
    by (simp add: script_def main_launch_fails [OF l] trace_init_state exit_status_def)
qed

text \<open>
  Claim C5, amended: every execution in which the session opens and the agent is constructed
  performs the fixed sequence in order (build the model config, build the server parameters,
  open the session, construct the agent inside the session's scope, run the query, leave the
  scope) and runs the agent exactly once, with the one hardcoded query. In every execution
  the agent is run at most once, and the command line is not read.
\<close>

theorem fixed_sequence:
  assumes "launch w = Started" and "handshake w = HsOk catalog" and "agent_init w = None"
  shows "calls_of (trace (snd (main w init_state))) =
           [CallLiteLLMModel the_model,
            CallStdioServerParameters (the_parameters w),
            CallFromMcp (the_parameters w) True, ProcSpawn,
            CallCodeAgent (mcp_tools catalog) the_model True,
            CallRun query,
            CallExit (case agent_run w (the_agent the_model catalog) query of
                        Inl e \<Rightarrow> Some e | Inr _ \<Rightarrow> None),
            ProcTerminate] \<and>
         count_run (trace (snd (main w init_state))) = 1 \<and>
         query = ''Please find a remedy for hangover.'' \<and>
         main (w\<lparr>argv := a\<rparr>) init_state = main w init_state \<and>
         count_run (trace (snd (main w' init_state))) \<le> 1"
proof -
  have le: "count_run (trace (snd (main w' init_state))) \<le> 1"
  proof (cases w' rule: world_cases)
    case launch then show ?thesis by (simp add: main_launch_fails trace_init_state)
  next
    case handshake then show ?thesis by (simp add: main_handshake_fails trace_init_state)
  next
    case (init catalog e) then show ?thesis by (simp add: main_init_fails trace_init_state)
  next
    case (run catalog e) then show ?thesis by (simp add: main_run_fails trace_init_state)
  next
    case (ok catalog answer) then show ?thesis by (simp add: main_trace_ok trace_init_state)
  qed
  have q: "query = ''Please find a remedy for hangover.''"
    by (simp add: query_def)
  show ?thesis
  proof (cases "agent_run w (the_agent the_model catalog) query")
    case (Inl e)
    show ?thesis using q le
      by (simp add: main_run_fails [OF assms Inl] Inl trace_init_state main_ignores_argv)
  next
    case (Inr answer)
    show ?thesis using q le
      by (simp add: main_trace_ok [OF assms Inr] Inr trace_init_state main_ignores_argv)
  qed
qed

theorem fixed_sequence_witness:
  "launch world_answer = Started \<and>
   handshake world_answer = HsOk [(''search_pubmed'', ''query: string'')] \<and>
   agent_init world_answer = None \<and>
   calls_of (trace (snd (main world_answer init_state))) =
     [CallLiteLLMModel the_model,
      CallStdioServerParameters (the_parameters world_answer),
      CallFromMcp (the_parameters world_answer) True, ProcSpawn,
      CallCodeAgent (mcp_tools [(''search_pubmed'', ''query: string'')]) the_model True,
      CallRun query,
      CallExit None,
      ProcTerminate] \<and>
   count_run (trace (snd (main world_answer init_state))) = 1"
proof -
  have l: "launch world_answer = Started" by (simp add: world_answer_def)
  have h: "handshake world_answer = HsOk [(''search_pubmed'', ''query: string'')]"
    by (simp add: world_answer_def)
  have i: "agent_init world_answer = None" by (simp add: world_answer_def)
  have r: "agent_run world_answer = (\<lambda>a q. Inr ''Drink water and rest.'')"
    by (simp add: world_answer_def)
  from fixed_sequence [OF l h i] show ?thesis by (simp add: l h i r)
qed

section \<open>Opening and closing the session\<close>

text \<open>
  Claim C7. When the executable cannot be started, opening the session fails with
  \<open>LaunchError\<close>, no subprocess is spawned and the state of the process is what it was. When
  the executable starts and the handshake fails or times out, opening fails with
  \<open>ProtocolError\<close> and the subprocess that was started has been terminated.
\<close>

theorem from_mcp_failures:
  "(launch w \<noteq> Started \<longrightarrow>
      fst (from_mcp w sp t s) = Inl LaunchError \<and>
      snd (from_mcp w sp t s) = log (CallFromMcp sp t) s \<and>
      proc (snd (from_mcp w sp t s)) = proc s) \<and>
   (launch w = Started \<and> (handshake w = HsFailed \<or> handshake w = HsTimeout) \<longrightarrow>
      fst (from_mcp w sp t s) = Inl ProtocolError \<and>
      trace (snd (from_mcp w sp t s)) = trace s @ [CallFromMcp sp t, ProcSpawn, ProcTerminate] \<and>
      proc (snd (from_mcp w sp t s)) = Terminated)"
  by (cases "launch w") (auto simp: from_mcp_def Let_def log_def)

theorem from_mcp_failures_witness:
  "launch world_no_uvx \<noteq> Started \<and>
   fst (from_mcp world_no_uvx (the_parameters world_no_uvx) True init_state) = Inl LaunchError \<and>
   proc (snd (from_mcp world_no_uvx (the_parameters world_no_uvx) True init_state)) = NotStarted \<and>
   launch world_hang = Started \<and> handshake world_hang = HsTimeout \<and>
   fst (from_mcp world_hang (the_parameters world_hang) True init_state) = Inl ProtocolError \<and>
   proc (snd (from_mcp world_hang (the_parameters world_hang) True init_state)) = Terminated"
proof -
  have 1: "launch world_no_uvx = NotFound" by (simp add: world_no_uvx_def world_answer_def)
  have 2: "launch world_hang = Started" by (simp add: world_hang_def world_answer_def)
  have 3: "handshake world_hang = HsTimeout" by (simp add: world_hang_def world_answer_def)
  have 4: "proc init_state = NotStarted" by (simp add: init_state_def)
  from from_mcp_failures [of world_no_uvx "the_parameters world_no_uvx" True init_state]
       from_mcp_failures [of world_hang "the_parameters world_hang" True init_state]
  show ?thesis by (simp add: 1 2 3 4 log_def)
qed

text \<open>
  Claim C8. Closing is idempotent: a second close leaves the state as the first close left
  it (no further termination signal, no change of the process or of the tools), neither
  raises an error, and after a close the subprocess is not running. A second \<open>__exit__\<close> only
  adds its own call to the trace.
\<close>

theorem session_close_idempotent:
  "session_close (session_close s) = session_close s \<and>
   proc (session_close s) \<noteq> Running \<and>
   fst (session_exit r' (snd (session_exit r s))) = Inr False \<and>
   snd (session_exit r' (snd (session_exit r s))) = log (CallExit r') (snd (session_exit r s))"
  by (simp add: session_close_def session_exit_def log_def)

section \<open>The tools of the agent\<close>




end
